theory Spec2Isabelle
  imports Main "HOL-Library.AList"
begin

section \<open>Tunnel lifecycle manager of pont: a shallow embedding\<close>

text \<open>
  The development follows \<^verbatim>\<open>internal/service\<close> (the manager and the two adapters) and
  \<^verbatim>\<open>internal/config\<close> (the definition lookup). Go structs are records, the
  \<^verbatim>\<open>TunnelService\<close> interface is a datatype with one constructor per implementation,
  pointers are addresses into explicit heaps, Go errors are their message strings, and
  every answer of a third-party library (the ngrok agent, cloudflared, the uuid parser,
  the database client, the upstream HTTP client) is an input of the function that asks
  for it.
\<close>

subsection \<open>Strings and errors\<close>

type_synonym error = string

text \<open>\<^verbatim>\<open>strings.HasPrefix\<close> and \<^verbatim>\<open>strings.TrimPrefix\<close>.\<close>

definition HasPrefix :: "string \<Rightarrow> string \<Rightarrow> bool" where
  "HasPrefix s p = (take (length p) s = p)"

definition TrimPrefix :: "string \<Rightarrow> string \<Rightarrow> string" where
  "TrimPrefix s p = (if HasPrefix s p then drop (length p) s else s)"

text \<open>
  An error value returned by the ngrok library: either one that \<^verbatim>\<open>errors.As\<close> finds to
  be an \<^verbatim>\<open>ngrok.Error\<close> (with its code and its text), or any other error.
\<close>

datatype go_error = NgrokError string string | OtherError string

fun Error_text :: "go_error \<Rightarrow> string" where
  "Error_text (NgrokError c m) = m"
| "Error_text (OtherError m) = m"

fun Code :: "go_error \<Rightarrow> string option" where
  "Code (NgrokError c m) = Some c"
| "Code (OtherError m) = None"

subsection \<open>Contexts\<close>

text \<open>
  A \<^verbatim>\<open>context.Context\<close> is the chain of its ancestors; \<^verbatim>\<open>context.WithCancel\<close> adds a
  link named by a fresh number, and that number is the \<^verbatim>\<open>CancelFunc\<close>. The set of the
  numbers whose cancel function has been called is part of the state. A context is
  done (\<^verbatim>\<open>ctx.Err() != nil\<close>) when it or an ancestor has been cancelled.
\<close>

datatype ctx = Background | WithCancel nat ctx

type_synonym CancelFunc = nat

fun ctx_Err :: "nat set \<Rightarrow> ctx \<Rightarrow> bool" where
  "ctx_Err cancelled Background = False"
| "ctx_Err cancelled (WithCancel k parent) = (k \<in> cancelled \<or> ctx_Err cancelled parent)"

text \<open>Calling a \<^verbatim>\<open>CancelFunc\<close> that may be nil (\<^verbatim>\<open>if cancel != nil { cancel() }\<close>).\<close>

definition call_cancel :: "CancelFunc option \<Rightarrow> nat set \<Rightarrow> nat set" where
  "call_cancel c cancelled = (case c of None \<Rightarrow> cancelled | Some k \<Rightarrow> insert k cancelled)"

subsection \<open>Tunnel definitions (package config)\<close>

type_synonym TunnelType = string

definition TunnelTypeCloudflare :: TunnelType where
  "TunnelTypeCloudflare = ''cloudflare''"

definition TunnelTypeNgrok :: TunnelType where
  "TunnelTypeNgrok = ''ngrok''"

record TunnelConfig =
  cfg_ID :: string
  cfg_Name :: string
  cfg_Type :: TunnelType
  cfg_Target :: string
  cfg_Enabled :: bool
  cfg_MCPEnabled :: bool
  cfg_CreatedAt :: nat
  cfg_UpdatedAt :: nat
  cfg_NgrokAuthtoken :: string
  cfg_NgrokDomain :: string

text \<open>A row of the tunnel table as the database client returns it; the key is a UUID.\<close>

type_synonym uuid = string

record ent_Tunnel =
  ent_ID :: uuid
  ent_Name :: string
  ent_Type :: string
  ent_Target :: string
  ent_Enabled :: bool
  ent_McpEnabled :: bool
  ent_CreatedAt :: nat
  ent_UpdatedAt :: nat
  ent_NgrokAuthtoken :: "string option"
  ent_NgrokDomain :: "string option"

datatype ent_result = EntFound ent_Tunnel | EntNotFound | EntError string

text \<open>
  \<^verbatim>\<open>config.Manager\<close>. Its database client is the answer of \<^verbatim>\<open>client.Tunnel.Get\<close> for
  each key; \<^verbatim>\<open>uuid.Parse\<close> (a library function) is carried along with it: \<open>Inl\<close> is
  the text of the parse error, \<open>Inr\<close> the parsed key in its printed form.
\<close>

record config_Manager =
  uuid_Parse :: "string \<Rightarrow> string + uuid"
  client_Tunnel_Get :: "uuid \<Rightarrow> ent_result"

definition stringPtrToString :: "string option \<Rightarrow> string" where
  "stringPtrToString s = (case s of None \<Rightarrow> '''' | Some v \<Rightarrow> v)"

definition GetTunnel :: "config_Manager \<Rightarrow> string \<Rightarrow> error + TunnelConfig" where
  "GetTunnel m ident =
     (case uuid_Parse m ident of
        Inl err \<Rightarrow> Inl (''invalid tunnel id: '' @ err)
      | Inr uid \<Rightarrow>
          (case client_Tunnel_Get m uid of
             EntNotFound \<Rightarrow> Inl (''tunnel not found: '' @ ident)
           | EntError err \<Rightarrow> Inl err
           | EntFound t \<Rightarrow>
               Inr \<lparr> cfg_ID = ent_ID t, cfg_Name = ent_Name t, cfg_Type = ent_Type t,
                     cfg_Target = ent_Target t, cfg_Enabled = ent_Enabled t,
                     cfg_MCPEnabled = ent_McpEnabled t, cfg_CreatedAt = ent_CreatedAt t,
                     cfg_UpdatedAt = ent_UpdatedAt t,
                     cfg_NgrokAuthtoken = stringPtrToString (ent_NgrokAuthtoken t),
                     cfg_NgrokDomain = stringPtrToString (ent_NgrokDomain t) \<rparr>))"

text \<open>
  \<^verbatim>\<open>DeleteTunnel\<close>: the row is removed when it is there; the API handler calls it
  without stopping the tunnel first.
\<close>

definition DeleteTunnel :: "config_Manager \<Rightarrow> string \<Rightarrow> error option \<times> config_Manager" where
  "DeleteTunnel m ident =
     (case uuid_Parse m ident of
        Inl err \<Rightarrow> (Some (''invalid tunnel id: '' @ err), m)
      | Inr uid \<Rightarrow>
          (case client_Tunnel_Get m uid of
             EntNotFound \<Rightarrow> (Some (''tunnel not found: '' @ ident), m)
           | EntError err \<Rightarrow> (Some err, m)
           | EntFound t \<Rightarrow>
               (None, m\<lparr> client_Tunnel_Get := (client_Tunnel_Get m)(uid := EntNotFound) \<rparr>)))"

subsection \<open>The ngrok adapter (\<^verbatim>\<open>NgrokService\<close>, agent SDK)\<close>

text \<open>
  The forwarder that \<^verbatim>\<open>agent.Forward\<close> returns: its public URL (the library's
  answer), the upstream it forwards to (the \<^verbatim>\<open>WithUpstream\<close> option of the call), and
  whether it has been closed.
\<close>

record EndpointForwarder =
  fw_URL :: string
  fw_upstream :: string
  fw_closed :: bool

record NgrokService =
  ns_config :: TunnelConfig
  ns_agent :: "string list option"
  ns_forwarder :: "EndpointForwarder option"
  ns_publicURL :: string
  ns_status :: string
  ns_lastError :: string
  ns_ctx :: "ctx option"
  ns_cancel :: "CancelFunc option"

definition NewNgrokService :: "TunnelConfig \<Rightarrow> NgrokService" where
  "NewNgrokService cfg =
     \<lparr> ns_config = cfg, ns_agent = None, ns_forwarder = None, ns_publicURL = '''',
       ns_status = ''stopped'', ns_lastError = '''', ns_ctx = None, ns_cancel = None \<rparr>"

text \<open>
  What the \<^verbatim>\<open>select\<close> of a start function receives: the result of \<^verbatim>\<open>agent.Forward\<close>
  from the result channel (a forwarder with its URL, or an error), or the tick of
  \<^verbatim>\<open>time.After(30 * time.Second)\<close> when no result has arrived by then.
\<close>

datatype forward_result = ForwardOK string | ForwardErr go_error

datatype select_outcome = Result forward_result | TimeAfter

definition free_account_msg :: string where
  "free_account_msg =
     ''Free ngrok accounts can only run one tunnel at a time. Please stop other tunnels first.''"

text \<open>
  The three start functions. Each launches \<^verbatim>\<open>agent.Forward\<close> in a goroutine of its own
  and waits in a select for its result or for the timer. The upstream it passes to
  \<^verbatim>\<open>Forward\<close> is kept with the forwarder; the other options (the domain, the scheme of
  the URL) are part of what the library answers to, and that answer is the argument
  \<open>sel\<close>.
\<close>

definition startHTTP ::
  "select_outcome \<Rightarrow> NgrokService \<Rightarrow> nat set \<Rightarrow> error option \<times> NgrokService \<times> nat set" where
  "startHTTP sel ns cancelled =
     (case sel of
        Result (ForwardErr err) \<Rightarrow>
          (let errMsg = ''Failed to start tunnel: '' @ Error_text err;
               errMsg = (if Code err = Some ''ERR_NGROK_108'' then free_account_msg else errMsg)
           in (Some errMsg, ns\<lparr> ns_lastError := errMsg, ns_status := ''error'' \<rparr>, cancelled))
      | Result (ForwardOK url) \<Rightarrow>
          (None,
           ns\<lparr> ns_forwarder :=
                 Some \<lparr> fw_URL = url, fw_upstream = cfg_Target (ns_config ns), fw_closed = False \<rparr>,
               ns_publicURL := url, ns_status := ''running'' \<rparr>,
           cancelled)
      | TimeAfter \<Rightarrow>
          (let errMsg = ''Ngrok connection timeout. Possible causes: 1) Network issue 2) Invalid authtoken 3) Free account limit: only 1 endpoint allowed, please stop other tunnels first''
           in (Some errMsg, ns\<lparr> ns_lastError := errMsg, ns_status := ''error'' \<rparr>,
               call_cancel (ns_cancel ns) cancelled)))"

definition startTCP ::
  "string \<Rightarrow> select_outcome \<Rightarrow> NgrokService \<Rightarrow> nat set
     \<Rightarrow> error option \<times> NgrokService \<times> nat set" where
  "startTCP target sel ns cancelled =
     (case sel of
        Result (ForwardErr err) \<Rightarrow>
          (let errMsg = ''Failed to start TCP tunnel: '' @ Error_text err;
               errMsg = (if Code err = Some ''ERR_NGROK_108'' then free_account_msg else errMsg)
           in (Some errMsg, ns\<lparr> ns_lastError := errMsg, ns_status := ''error'' \<rparr>, cancelled))
      | Result (ForwardOK url) \<Rightarrow>
          (None,
           ns\<lparr> ns_forwarder :=
                 Some \<lparr> fw_URL = url, fw_upstream = ''tcp://'' @ target, fw_closed = False \<rparr>,
               ns_publicURL := url, ns_status := ''running'' \<rparr>,
           cancelled)
      | TimeAfter \<Rightarrow>
          (let errMsg = ''Ngrok TCP connection timeout. Possible causes: 1) Network issue 2) Invalid authtoken 3) Free account limit: only 1 endpoint allowed, please stop other tunnels first''
           in (Some errMsg, ns\<lparr> ns_lastError := errMsg, ns_status := ''error'' \<rparr>,
               call_cancel (ns_cancel ns) cancelled)))"

definition startTLS ::
  "string \<Rightarrow> select_outcome \<Rightarrow> NgrokService \<Rightarrow> nat set
     \<Rightarrow> error option \<times> NgrokService \<times> nat set" where
  "startTLS target sel ns cancelled =
     (case sel of
        Result (ForwardErr err) \<Rightarrow>
          (let errMsg = ''Failed to start TLS tunnel: '' @ Error_text err;
               errMsg = (if Code err = Some ''ERR_NGROK_108'' then free_account_msg else errMsg)
           in (Some errMsg, ns\<lparr> ns_lastError := errMsg, ns_status := ''error'' \<rparr>, cancelled))
      | Result (ForwardOK url) \<Rightarrow>
          (None,
           ns\<lparr> ns_forwarder :=
                 Some \<lparr> fw_URL = url, fw_upstream = ''tls://'' @ target, fw_closed = False \<rparr>,
               ns_publicURL := url, ns_status := ''running'' \<rparr>,
           cancelled)
      | TimeAfter \<Rightarrow>
          (let errMsg = ''Ngrok TLS connection timeout. Possible causes: 1) Network issue 2) Invalid authtoken 3) Free account limit: only 1 endpoint allowed, please stop other tunnels first''
           in (Some errMsg, ns\<lparr> ns_lastError := errMsg, ns_status := ''error'' \<rparr>,
               call_cancel (ns_cancel ns) cancelled)))"

text \<open>
  \<^verbatim>\<open>NgrokService.Start\<close> blocks in the \<^verbatim>\<open>select\<close> of the start function it ends in.
  \<open>NgrokService_Start_enter\<close> is the part before that (\<open>k\<close> is the fresh number of
  \<^verbatim>\<open>context.WithCancel\<close>, \<open>newAgent\<close> the error of \<^verbatim>\<open>ngrok.NewAgent\<close> if any): it
  returns the error when it returns early, and \<open>None\<close> when it goes on to the select.
  \<open>NgrokService_Start_select\<close> is the rest, and \<open>NgrokService_Start\<close> the whole call.
\<close>

definition NgrokService_Start_enter ::
  "ctx \<Rightarrow> nat \<Rightarrow> go_error option \<Rightarrow> NgrokService \<Rightarrow> error option \<times> NgrokService" where
  "NgrokService_Start_enter ctx k newAgent ns =
     (let ns = ns\<lparr> ns_ctx := Some (WithCancel k ctx), ns_cancel := Some k \<rparr>;
          agentOpts = (if cfg_NgrokAuthtoken (ns_config ns) \<noteq> ''''
                       then [cfg_NgrokAuthtoken (ns_config ns)] else [])
      in case newAgent of
           Some err \<Rightarrow>
             (let errMsg = ''Failed to create agent: '' @ Error_text err
              in (Some errMsg, ns\<lparr> ns_lastError := errMsg, ns_status := ''error'' \<rparr>))
         | None \<Rightarrow> (None, ns\<lparr> ns_agent := Some agentOpts \<rparr>))"

definition NgrokService_Start_select ::
  "select_outcome \<Rightarrow> NgrokService \<Rightarrow> nat set \<Rightarrow> error option \<times> NgrokService \<times> nat set" where
  "NgrokService_Start_select sel ns cancelled =
     (let target = cfg_Target (ns_config ns)
      in if HasPrefix target ''tcp://'' then startTCP (TrimPrefix target ''tcp://'') sel ns cancelled
         else if HasPrefix target ''tls://'' then startTLS (TrimPrefix target ''tls://'') sel ns cancelled
         else startHTTP sel ns cancelled)"

definition NgrokService_Start ::
  "ctx \<Rightarrow> nat \<Rightarrow> go_error option \<Rightarrow> select_outcome \<Rightarrow> NgrokService \<Rightarrow> nat set
     \<Rightarrow> error option \<times> NgrokService \<times> nat set" where
  "NgrokService_Start ctx k newAgent sel ns cancelled =
     (case NgrokService_Start_enter ctx k newAgent ns of
        (Some err, ns') \<Rightarrow> (Some err, ns', cancelled)
      | (None, ns') \<Rightarrow> NgrokService_Start_select sel ns' cancelled)"

definition NgrokService_Stop ::
  "NgrokService \<Rightarrow> nat set \<Rightarrow> error option \<times> NgrokService \<times> nat set" where
  "NgrokService_Stop ns cancelled =
     (None,
      ns\<lparr> ns_status := ''stopped'', ns_publicURL := '''',
          ns_forwarder := map_option (\<lambda>f. f\<lparr> fw_closed := True \<rparr>) (ns_forwarder ns) \<rparr>,
      call_cancel (ns_cancel ns) cancelled)"

subsection \<open>The Cloudflare adapter (\<^verbatim>\<open>CloudflareService\<close>)\<close>

record CloudflareService =
  cs_config :: TunnelConfig
  cs_publicURL :: string
  cs_status :: string
  cs_lastError :: "error option"
  cs_cancel :: "CancelFunc option"
  cs_wg :: nat
  cs_initOnce :: bool
  cs_metricsRegistry :: bool
  cs_gracefulShutdownC :: nat

definition NewCloudflareService :: "TunnelConfig \<Rightarrow> CloudflareService" where
  "NewCloudflareService cfg =
     \<lparr> cs_config = cfg, cs_publicURL = '''', cs_status = ''stopped'', cs_lastError = None,
       cs_cancel = None, cs_wg = 0, cs_initOnce = False, cs_metricsRegistry = False,
       cs_gracefulShutdownC = 0 \<rparr>"

text \<open>
  \<^verbatim>\<open>CloudflareService.Start\<close> returns at once. \<open>parse\<close> is the error of \<^verbatim>\<open>url.Parse\<close> on
  the target, if any; \<open>k\<close> the fresh number of \<^verbatim>\<open>context.WithCancel\<close>. The last
  component is the context handed to the \<^verbatim>\<open>runTunnel\<close> goroutine when one is launched.
  The initialisation of cloudflared and of the metrics registry sets the two flags and
  nothing else; the recovery deferred in \<^verbatim>\<open>Start\<close> guards those library calls and has
  no branch here.
\<close>

definition CloudflareService_Start ::
  "ctx \<Rightarrow> nat \<Rightarrow> error option \<Rightarrow> CloudflareService \<Rightarrow> nat set
     \<Rightarrow> error option \<times> CloudflareService \<times> nat set \<times> ctx option" where
  "CloudflareService_Start ctx k parse cs cancelled =
     (if cs_status cs = ''running'' \<or> cs_status cs = ''starting''
      then (Some ''tunnel already running'', cs, cancelled, None)
      else case parse of
             Some err \<Rightarrow> (Some (''invalid target URL: '' @ err), cs, cancelled, None)
           | None \<Rightarrow>
               (let cs = cs\<lparr> cs_initOnce := True, cs_metricsRegistry := True \<rparr>;
                    cancelled = call_cancel (cs_cancel cs) cancelled;
                    tunnelCtx = WithCancel k ctx;
                    cs = cs\<lparr> cs_cancel := Some k, cs_status := ''starting'',
                             cs_lastError := None, cs_wg := cs_wg cs + 1 \<rparr>
                in (None, cs, cancelled, Some tunnelCtx)))"

text \<open>
  How \<^verbatim>\<open>app.RunContext\<close> ends inside \<^verbatim>\<open>runTunnel\<close>: it returns (with an error or
  nil), or a panic unwinds the goroutine (the code installs an \<^verbatim>\<open>OsExiter\<close> that
  panics on a non-zero exit code).
\<close>

datatype run_outcome = RunReturns "error option" | RunPanics string

text \<open>
  The statements of \<^verbatim>\<open>runTunnel\<close> after \<^verbatim>\<open>app.RunContext\<close>; the second component is
  the value of a panic in flight.
\<close>

definition runTunnel_body ::
  "run_outcome \<Rightarrow> nat set \<Rightarrow> ctx \<Rightarrow> CloudflareService \<Rightarrow> CloudflareService \<times> string option" where
  "runTunnel_body out cancelled ctx cs =
     (case out of
        RunPanics r \<Rightarrow> (cs, Some r)
      | RunReturns err \<Rightarrow>
          (if ctx_Err cancelled ctx then (cs, None)
           else case err of
                  None \<Rightarrow> (cs, None)
                | Some e \<Rightarrow> (cs\<lparr> cs_lastError := Some e, cs_status := ''error'' \<rparr>, None)))"

text \<open>
  The deferred functions of \<^verbatim>\<open>runTunnel\<close>, named in the order of their \<^verbatim>\<open>defer\<close>
  statements: \<^verbatim>\<open>wg.Done\<close>, the recovery, the reset of status and URL. (The fourth
  restores the standard streams and ends the capture of the output; it touches no
  field.) Go runs them last deferred first.
\<close>

definition defer_wg_Done :: "CloudflareService \<Rightarrow> CloudflareService" where
  "defer_wg_Done cs = cs\<lparr> cs_wg := cs_wg cs - 1 \<rparr>"

definition defer_recover :: "string option \<Rightarrow> CloudflareService \<Rightarrow> CloudflareService" where
  "defer_recover rec cs =
     (case rec of
        None \<Rightarrow> cs
      | Some r \<Rightarrow> cs\<lparr> cs_lastError := Some (''tunnel panic: '' @ r), cs_status := ''error'' \<rparr>)"

definition defer_reset :: "CloudflareService \<Rightarrow> CloudflareService" where
  "defer_reset cs = cs\<lparr> cs_status := ''stopped'', cs_publicURL := '''' \<rparr>"

definition runTunnel ::
  "run_outcome \<Rightarrow> nat set \<Rightarrow> ctx \<Rightarrow> CloudflareService \<Rightarrow> CloudflareService" where
  "runTunnel out cancelled ctx cs =
     (case runTunnel_body out cancelled ctx cs of
        (cs, rec) \<Rightarrow> defer_wg_Done (defer_recover rec (defer_reset cs)))"

text \<open>
  \<^verbatim>\<open>urlCapture.Write\<close>, called with each chunk cloudflared prints while \<^verbatim>\<open>runTunnel\<close> is
  alive; \<open>match\<close> is what the URL pattern finds in the chunk.
\<close>

definition urlCapture_Write :: "string option \<Rightarrow> CloudflareService \<Rightarrow> CloudflareService" where
  "urlCapture_Write match cs =
     (if cs_publicURL cs \<noteq> '''' then cs
      else case match of
             None \<Rightarrow> cs
           | Some u \<Rightarrow>
               (if cs_publicURL cs = ''''
                then cs\<lparr> cs_publicURL := u, cs_status := ''running'' \<rparr> else cs))"

text \<open>
  \<^verbatim>\<open>CloudflareService.Stop\<close>. \<open>run\<close> is the context of the live \<^verbatim>\<open>runTunnel\<close> goroutine
  if there is one: \<^verbatim>\<open>wg.Wait\<close> returns when that goroutine has ended, and \<open>unwind\<close> is
  how its \<^verbatim>\<open>app.RunContext\<close> ends once the context is cancelled. The last component
  is the goroutine still alive afterwards.
\<close>

definition CloudflareService_Stop ::
  "run_outcome \<Rightarrow> ctx option \<Rightarrow> CloudflareService \<Rightarrow> nat set
     \<Rightarrow> error option \<times> CloudflareService \<times> nat set \<times> ctx option" where
  "CloudflareService_Stop unwind run cs cancelled =
     (if cs_status cs = ''stopped'' then (None, cs, cancelled, run)
      else
        (let cancelled = call_cancel (cs_cancel cs) cancelled;
             cs = cs\<lparr> cs_gracefulShutdownC := min 1 (cs_gracefulShutdownC cs + 1) \<rparr>
         in case run of
              None \<Rightarrow> (None, cs, cancelled, None)
            | Some c \<Rightarrow> (None, runTunnel unwind cancelled c cs, cancelled, None)))"

definition CloudflareService_GetError :: "CloudflareService \<Rightarrow> string" where
  "CloudflareService_GetError cs = (case cs_lastError cs of Some e \<Rightarrow> e | None \<Rightarrow> '''')"

subsection \<open>The \<^verbatim>\<open>TunnelService\<close> interface\<close>

datatype TunnelService = Ngrok NgrokService | Cloudflare CloudflareService

fun GetStatus :: "TunnelService \<Rightarrow> string" where
  "GetStatus (Ngrok ns) = ns_status ns"
| "GetStatus (Cloudflare cs) = cs_status cs"

fun GetPublicURL :: "TunnelService \<Rightarrow> string" where
  "GetPublicURL (Ngrok ns) = ns_publicURL ns"
| "GetPublicURL (Cloudflare cs) = cs_publicURL cs"

fun GetError :: "TunnelService \<Rightarrow> string" where
  "GetError (Ngrok ns) = ns_lastError ns"
| "GetError (Cloudflare cs) = CloudflareService_GetError cs"

subsection \<open>The manager and its registry\<close>

type_synonym addr = nat

record TunnelState =
  ts_ID :: string
  ts_Status :: string
  ts_PublicURL :: string
  ts_StartedAt :: nat
  ts_Error :: string
  ts_ctx :: "ctx option"
  ts_cancel :: "CancelFunc option"
  ts_service :: "addr option"

text \<open>
  The goroutine that \<^verbatim>\<open>Manager.Start\<close> launches, with the variables its closure
  captures (the state object is the key under which the goroutine is kept) and the
  place it has reached: launched; blocked in the select of the ngrok adapter; back from
  \<^verbatim>\<open>service.Start\<close> with its result, and waiting for the lock; waiting on
  \<^verbatim>\<open>ctx.Done()\<close>; ended.
\<close>

datatype phase = Launched | InSelect | StartReturned "error option" | WaitDone | Finished

record goroutine =
  g_service :: addr
  g_ctx :: ctx
  g_phase :: phase

text \<open>
  The state of the process. \<open>tunnels\<close> and \<open>cfgMgr\<close> are the fields of \<^verbatim>\<open>Manager\<close>; the
  map holds pointers, so \<open>states\<close> and \<open>services\<close> are the heaps of the \<^verbatim>\<open>TunnelState\<close>
  and adapter objects. \<open>goroutines\<close> holds the goroutines of \<^verbatim>\<open>Manager.Start\<close>, \<open>runs\<close>
  the context of each live \<^verbatim>\<open>runTunnel\<close> goroutine (by its adapter), \<open>cancelled\<close> the
  cancel functions called so far, \<open>fresh\<close> the next unused address, \<open>now\<close> the clock.
\<close>

record world =
  tunnels :: "(string \<times> addr) list"
  cfgMgr :: config_Manager
  states :: "addr \<rightharpoonup> TunnelState"
  services :: "addr \<rightharpoonup> TunnelService"
  goroutines :: "addr \<rightharpoonup> goroutine"
  runs :: "addr \<rightharpoonup> ctx"
  cancelled :: "nat set"
  fresh :: nat
  now :: nat

definition NewManager :: "config_Manager \<Rightarrow> world" where
  "NewManager c =
     \<lparr> tunnels = [], cfgMgr = c, states = Map.empty, services = Map.empty,
       goroutines = Map.empty, runs = Map.empty, cancelled = {}, fresh = 0, now = 0 \<rparr>"

text \<open>
  \<^verbatim>\<open>state, exists := m.tunnels[id]\<close>: the pointer and the object it points to. (A pointer
  in the map always leads to an object, see \<open>heap_ok\<close> below; the functions treat one
  that does not as a missing entry.)
\<close>

definition lookup_state :: "world \<Rightarrow> string \<Rightarrow> (addr \<times> TunnelState) option" where
  "lookup_state w ident =
     (case map_of (tunnels w) ident of
        None \<Rightarrow> None
      | Some p \<Rightarrow> (case states w p of None \<Rightarrow> None | Some state \<Rightarrow> Some (p, state)))"

text \<open>\<^verbatim>\<open>state.service\<close>, when it is not nil.\<close>

definition service_of :: "world \<Rightarrow> TunnelState \<Rightarrow> TunnelService option" where
  "service_of w state = (case ts_service state of None \<Rightarrow> None | Some s \<Rightarrow> services w s)"

definition update_state :: "addr \<Rightarrow> (TunnelState \<Rightarrow> TunnelState) \<Rightarrow> world \<Rightarrow> world" where
  "update_state p f w = w\<lparr> states := (states w)(p := map_option f (states w p)) \<rparr>"

text \<open>
  The second half of \<^verbatim>\<open>Manager.Start\<close>, from the creation of the context to the
  \<^verbatim>\<open>go\<close> statement. One fresh number serves as the address of the state, the address
  of the adapter and the cancel function.
\<close>

definition launch :: "string \<Rightarrow> TunnelService \<Rightarrow> world \<Rightarrow> world" where
  "launch ident service w =
     (let a = fresh w;
          ctx = WithCancel a Background;
          state = \<lparr> ts_ID = ident, ts_Status = ''starting'', ts_PublicURL = '''',
                    ts_StartedAt = now w, ts_Error = '''', ts_ctx = Some ctx,
                    ts_cancel = Some a, ts_service = Some a \<rparr>
      in w\<lparr> tunnels := AList.update ident a (tunnels w),
             states := (states w)(a \<mapsto> state),
             services := (services w)(a \<mapsto> service),
             goroutines := (goroutines w)(a \<mapsto> \<lparr> g_service = a, g_ctx = ctx, g_phase = Launched \<rparr>),
             fresh := a + 1 \<rparr>)"

text \<open>The guard of \<^verbatim>\<open>Manager.Start\<close>: \<^verbatim>\<open>exists && state.Status == "running"\<close>.\<close>

definition already_running :: "world \<Rightarrow> string \<Rightarrow> bool" where
  "already_running w ident =
     (case lookup_state w ident of
        Some (p, state) \<Rightarrow> ts_Status state = ''running''
      | None \<Rightarrow> False)"

definition Manager_Start :: "string \<Rightarrow> world \<Rightarrow> error option \<times> world" where
  "Manager_Start ident w =
     (if already_running w ident
      then (Some ''tunnel already running'', w)
      else case GetTunnel (cfgMgr w) ident of
             Inl err \<Rightarrow> (Some err, w)
           | Inr tunnelCfg \<Rightarrow>
               (if cfg_Type tunnelCfg = TunnelTypeCloudflare
                then (None, launch ident (Cloudflare (NewCloudflareService tunnelCfg)) w)
                else if cfg_Type tunnelCfg = TunnelTypeNgrok
                then (None, launch ident (Ngrok (NewNgrokService tunnelCfg)) w)
                else (Some (''unsupported tunnel type: '' @ cfg_Type tunnelCfg), w)))"

text \<open>\<^verbatim>\<open>state.service.Stop()\<close> on the adapter at address \<open>s\<close>.\<close>

definition service_Stop :: "run_outcome \<Rightarrow> addr \<Rightarrow> world \<Rightarrow> error option \<times> world" where
  "service_Stop unwind s w =
     (case services w s of
        None \<Rightarrow> (None, w)
      | Some (Ngrok ns) \<Rightarrow>
          (case NgrokService_Stop ns (cancelled w) of
             (err, ns', c') \<Rightarrow>
               (err, w\<lparr> services := (services w)(s \<mapsto> Ngrok ns'), cancelled := c' \<rparr>))
      | Some (Cloudflare cs) \<Rightarrow>
          (case CloudflareService_Stop unwind (runs w s) cs (cancelled w) of
             (err, cs', c', run') \<Rightarrow>
               (err, w\<lparr> services := (services w)(s \<mapsto> Cloudflare cs'), cancelled := c',
                         runs := (runs w)(s := run') \<rparr>)))"

text \<open>
  \<^verbatim>\<open>Manager.Stop\<close>; an error of the adapter's \<^verbatim>\<open>Stop\<close> is logged only. \<open>unwind\<close> is
  passed on to the Cloudflare adapter.
\<close>

definition Manager_Stop :: "string \<Rightarrow> run_outcome \<Rightarrow> world \<Rightarrow> error option \<times> world" where
  "Manager_Stop ident unwind w =
     (case lookup_state w ident of
        None \<Rightarrow> (Some ''tunnel not found'', w)
      | Some (p, state) \<Rightarrow>
          (if (case service_of w state of
                 Some svc \<Rightarrow> GetStatus svc = ''stopped''
               | None \<Rightarrow> False)
           then (None, w)
           else
             (let w = w\<lparr> cancelled := call_cancel (ts_cancel state) (cancelled w) \<rparr>;
                  w = (case ts_service state of
                         None \<Rightarrow> w
                       | Some s \<Rightarrow> snd (service_Stop unwind s w))
              in (None, update_state p (\<lambda>st. st\<lparr> ts_Status := ''stopped'' \<rparr>) w))))"

text \<open>
  A call either returns or panics; \<^verbatim>\<open>GetStatus\<close> and \<^verbatim>\<open>GetAllStatuses\<close> call the methods
  of \<^verbatim>\<open>state.service\<close> without a nil check.
\<close>

datatype 'a outcome = Returned 'a | Panicked string

definition nil_dereference :: string where
  "nil_dereference = ''invalid memory address or nil pointer dereference''"

definition snapshot :: "world \<Rightarrow> TunnelState \<Rightarrow> TunnelState outcome" where
  "snapshot w state =
     (case service_of w state of
        None \<Rightarrow> Panicked nil_dereference
      | Some svc \<Rightarrow>
          Returned \<lparr> ts_ID = ts_ID state, ts_Status = GetStatus svc,
                     ts_PublicURL = GetPublicURL svc, ts_StartedAt = ts_StartedAt state,
                     ts_Error = GetError svc, ts_ctx = None, ts_cancel = None,
                     ts_service = None \<rparr>)"

definition Manager_GetStatus :: "string \<Rightarrow> world \<Rightarrow> (TunnelState \<times> error option) outcome" where
  "Manager_GetStatus ident w =
     (case lookup_state w ident of
        None \<Rightarrow>
          Returned (\<lparr> ts_ID = ident, ts_Status = ''stopped'', ts_PublicURL = '''',
                       ts_StartedAt = 0, ts_Error = '''', ts_ctx = None, ts_cancel = None,
                       ts_service = None \<rparr>, None)
      | Some (p, state) \<Rightarrow>
          (case snapshot w state of
             Panicked msg \<Rightarrow> Panicked msg
           | Returned copy \<Rightarrow> Returned (copy, None)))"

text \<open>The loop of \<^verbatim>\<open>GetAllStatuses\<close> over the entries of the map.\<close>

fun all_snapshots :: "world \<Rightarrow> (string \<times> addr) list \<Rightarrow> (string \<times> TunnelState) list outcome" where
  "all_snapshots w [] = Returned []"
| "all_snapshots w ((ident, p) # rest) =
     (case states w p of
        None \<Rightarrow> all_snapshots w rest
      | Some state \<Rightarrow>
          (case snapshot w state of
             Panicked msg \<Rightarrow> Panicked msg
           | Returned copy \<Rightarrow>
               (case all_snapshots w rest of
                  Panicked msg \<Rightarrow> Panicked msg
                | Returned result \<Rightarrow> Returned ((ident, copy) # result))))"

definition Manager_GetAllStatuses :: "world \<Rightarrow> (string \<times> TunnelState) list outcome" where
  "Manager_GetAllStatuses w = all_snapshots w (tunnels w)"

subsection \<open>Interleavings\<close>

text \<open>
  One event is one step that runs without interruption: a call of the API under the
  manager's lock, a stretch of a goroutine between two blocking points, or an answer of
  the outside world (with that answer as its argument). An event that cannot happen in
  the state it meets leaves the state as it is. The ngrok adapter writes its fields
  without a lock; the writes of one such stretch are taken together here. A call of
  \<^verbatim>\<open>Manager.Stop\<close> holds the lock while \<^verbatim>\<open>wg.Wait\<close> lets the \<^verbatim>\<open>runTunnel\<close> goroutine
  end, so that ending is part of the same event.
\<close>

datatype event =
    CallStart string
  | CallStop string run_outcome
  | CallDelete string
  | GoServiceStart addr "go_error option" "error option"
  | SelectFires addr select_outcome
  | GoRecord addr
  | GoCtxDone addr
  | StdoutWrite addr "string option"
  | RunContextEnds addr run_outcome
  | Tick

text \<open>
  The goroutine of \<^verbatim>\<open>Manager.Start\<close> calls \<^verbatim>\<open>service.Start(ctx)\<close>: the ngrok adapter
  runs up to its select (or returns the error of \<^verbatim>\<open>ngrok.NewAgent\<close>), the Cloudflare
  adapter runs to its return.
\<close>

definition go_service_Start :: "addr \<Rightarrow> go_error option \<Rightarrow> error option \<Rightarrow> world \<Rightarrow> world" where
  "go_service_Start p newAgent parse w =
     (case goroutines w p of
        None \<Rightarrow> w
      | Some g \<Rightarrow>
          (if g_phase g \<noteq> Launched then w
           else case services w (g_service g) of
                  None \<Rightarrow> w
                | Some (Ngrok ns) \<Rightarrow>
                    (case NgrokService_Start_enter (g_ctx g) (fresh w) newAgent ns of
                       (r, ns') \<Rightarrow>
                         w\<lparr> services := (services w)(g_service g \<mapsto> Ngrok ns'),
                            goroutines := (goroutines w)(p \<mapsto>
                              g\<lparr> g_phase := (case r of None \<Rightarrow> InSelect
                                              | Some err \<Rightarrow> StartReturned (Some err)) \<rparr>),
                            fresh := fresh w + 1 \<rparr>)
                | Some (Cloudflare cs) \<Rightarrow>
                    (case CloudflareService_Start (g_ctx g) (fresh w) parse cs (cancelled w) of
                       (r, cs', c', spawned) \<Rightarrow>
                         w\<lparr> services := (services w)(g_service g \<mapsto> Cloudflare cs'),
                            cancelled := c',
                            runs := (case spawned of
                                       None \<Rightarrow> runs w
                                     | Some c \<Rightarrow> (runs w)(g_service g \<mapsto> c)),
                            goroutines := (goroutines w)(p \<mapsto> g\<lparr> g_phase := StartReturned r \<rparr>),
                            fresh := fresh w + 1 \<rparr>)))"

text \<open>The select of the ngrok adapter receives, and \<^verbatim>\<open>service.Start\<close> returns.\<close>

definition select_fires :: "addr \<Rightarrow> select_outcome \<Rightarrow> world \<Rightarrow> world" where
  "select_fires p sel w =
     (case goroutines w p of
        None \<Rightarrow> w
      | Some g \<Rightarrow>
          (if g_phase g \<noteq> InSelect then w
           else case services w (g_service g) of
                  Some (Ngrok ns) \<Rightarrow>
                    (case NgrokService_Start_select sel ns (cancelled w) of
                       (r, ns', c') \<Rightarrow>
                         w\<lparr> services := (services w)(g_service g \<mapsto> Ngrok ns'),
                            cancelled := c',
                            goroutines := (goroutines w)(p \<mapsto> g\<lparr> g_phase := StartReturned r \<rparr>) \<rparr>)
                | _ \<Rightarrow> w))"

text \<open>
  The goroutine takes the lock and writes the result of \<^verbatim>\<open>service.Start\<close> into its
  state object.
\<close>

definition go_record :: "addr \<Rightarrow> world \<Rightarrow> world" where
  "go_record p w =
     (case goroutines w p of
        None \<Rightarrow> w
      | Some g \<Rightarrow>
          (case g_phase g of
             StartReturned (Some err) \<Rightarrow>
               (update_state p (\<lambda>st. st\<lparr> ts_Status := ''error'', ts_Error := err \<rparr>) w)
                 \<lparr> goroutines := (goroutines w)(p \<mapsto> g\<lparr> g_phase := Finished \<rparr>) \<rparr>
           | StartReturned None \<Rightarrow>
               (case services w (g_service g) of
                  None \<Rightarrow> w
                | Some svc \<Rightarrow>
                    (update_state p
                       (\<lambda>st. st\<lparr> ts_Status := ''running'', ts_PublicURL := GetPublicURL svc \<rparr>) w)
                      \<lparr> goroutines := (goroutines w)(p \<mapsto> g\<lparr> g_phase := WaitDone \<rparr>) \<rparr>)
           | _ \<Rightarrow> w))"

text \<open>The goroutine wakes from \<^verbatim>\<open><-ctx.Done()\<close>.\<close>

definition go_ctx_Done :: "addr \<Rightarrow> world \<Rightarrow> world" where
  "go_ctx_Done p w =
     (case goroutines w p of
        None \<Rightarrow> w
      | Some g \<Rightarrow>
          (if g_phase g = WaitDone \<and> ctx_Err (cancelled w) (g_ctx g)
           then (update_state p (\<lambda>st. st\<lparr> ts_Status := ''stopped'' \<rparr>) w)
                  \<lparr> goroutines := (goroutines w)(p \<mapsto> g\<lparr> g_phase := Finished \<rparr>) \<rparr>
           else w))"

definition stdout_Write :: "addr \<Rightarrow> string option \<Rightarrow> world \<Rightarrow> world" where
  "stdout_Write s match w =
     (case (runs w s, services w s) of
        (Some c, Some (Cloudflare cs)) \<Rightarrow>
          w\<lparr> services := (services w)(s \<mapsto> Cloudflare (urlCapture_Write match cs)) \<rparr>
      | _ \<Rightarrow> w)"

definition run_context_ends :: "addr \<Rightarrow> run_outcome \<Rightarrow> world \<Rightarrow> world" where
  "run_context_ends s out w =
     (case (runs w s, services w s) of
        (Some c, Some (Cloudflare cs)) \<Rightarrow>
          w\<lparr> services := (services w)(s \<mapsto> Cloudflare (runTunnel out (cancelled w) c cs)),
             runs := (runs w)(s := None) \<rparr>
      | _ \<Rightarrow> w)"

fun step :: "event \<Rightarrow> world \<Rightarrow> world" where
  "step (CallStart ident) w = snd (Manager_Start ident w)"
| "step (CallStop ident unwind) w = snd (Manager_Stop ident unwind w)"
| "step (CallDelete ident) w = w\<lparr> cfgMgr := snd (DeleteTunnel (cfgMgr w) ident) \<rparr>"
| "step (GoServiceStart p newAgent parse) w = go_service_Start p newAgent parse w"
| "step (SelectFires p sel) w = select_fires p sel w"
| "step (GoRecord p) w = go_record p w"
| "step (GoCtxDone p) w = go_ctx_Done p w"
| "step (StdoutWrite s match) w = stdout_Write s match w"
| "step (RunContextEnds s out) w = run_context_ends s out w"
| "step Tick w = w\<lparr> now := now w + 1 \<rparr>"

fun run :: "event list \<Rightarrow> world \<Rightarrow> world" where
  "run [] w = w"
| "run (e # es) w = run es (step e w)"

subsection \<open>A concrete installation\<close>

text \<open>
  Two stored definitions, one per provider, with the parser of keys; they are the inputs
  at which the theorems below are evaluated. A third identifier is a well-formed key
  with no row, a fourth is no key at all.
\<close>

definition ngrok_id :: string where
  "ngrok_id = ''11111111-1111-1111-1111-111111111111''"

definition cloudflare_id :: string where
  "cloudflare_id = ''22222222-2222-2222-2222-222222222222''"

definition absent_id :: string where
  "absent_id = ''33333333-3333-3333-3333-333333333333''"

definition unknown_id :: string where
  "unknown_id = ''unknown-id''"

definition ngrok_row :: ent_Tunnel where
  "ngrok_row =
     \<lparr> ent_ID = ngrok_id, ent_Name = ''api'', ent_Type = ''ngrok'',
       ent_Target = ''http://localhost:8080'', ent_Enabled = True, ent_McpEnabled = False,
       ent_CreatedAt = 0, ent_UpdatedAt = 0, ent_NgrokAuthtoken = Some ''token'',
       ent_NgrokDomain = None \<rparr>"

definition cloudflare_row :: ent_Tunnel where
  "cloudflare_row =
     \<lparr> ent_ID = cloudflare_id, ent_Name = ''web'', ent_Type = ''cloudflare'',
       ent_Target = ''http://localhost:3000'', ent_Enabled = True, ent_McpEnabled = False,
       ent_CreatedAt = 0, ent_UpdatedAt = 0, ent_NgrokAuthtoken = None,
       ent_NgrokDomain = None \<rparr>"

text \<open>
  The parser of the installation, after \<^verbatim>\<open>uuid.Parse\<close> of the library the code imports:
  by its length a text is taken as the hyphenated form, that form behind \<^verbatim>\<open>urn:uuid:\<close>
  or inside a pair of braces, or 32 hexadecimal digits; any other length is an error
  that names the length. The key is returned in its printed form, hyphenated and in
  lower case.
\<close>

definition is_hex :: "char \<Rightarrow> bool" where
  "is_hex c = (c \<in> set ''0123456789abcdefABCDEF'')"

definition lower :: "char \<Rightarrow> char" where
  "lower c =
     (case map_of (zip ''ABCDEFGHIJKLMNOPQRSTUVWXYZ'' ''abcdefghijklmnopqrstuvwxyz'') c of
        None \<Rightarrow> c
      | Some l \<Rightarrow> l)"

function decimal :: "nat \<Rightarrow> string" where
  "decimal n =
     (if n < 10 then [''0123456789'' ! n]
      else decimal (n div 10) @ [''0123456789'' ! (n mod 10)])"
  by pat_completeness auto
termination
  by (relation "measure id") auto

declare decimal.simps [simp del]

text \<open>The hyphenated form in the first 36 characters of a text.\<close>

definition parse_hyphenated :: "string \<Rightarrow> string + uuid" where
  "parse_hyphenated s =
     (if take 1 (drop 8 s) = ''-'' \<and> take 1 (drop 13 s) = ''-'' \<and> take 1 (drop 18 s) = ''-'' \<and>
         take 1 (drop 23 s) = ''-'' \<and> 36 \<le> length s \<and>
         list_all is_hex
           (take 8 s @ take 4 (drop 9 s) @ take 4 (drop 14 s) @ take 4 (drop 19 s) @
            take 12 (drop 24 s))
      then Inr (map lower (take 36 s))
      else Inl ''invalid UUID format'')"

definition google_uuid_Parse :: "string \<Rightarrow> string + uuid" where
  "google_uuid_Parse s =
     (if length s = 36 then parse_hyphenated s
      else if length s = 36 + 9 then
        (if map lower (take 9 s) = ''urn:uuid:'' then parse_hyphenated (drop 9 s)
         else Inl (''invalid urn prefix: '' @ [CHR 0x22] @ take 9 s @ [CHR 0x22]))
      else if length s = 36 + 2 then parse_hyphenated (drop 1 s)
      else if length s = 32 then
        (if list_all is_hex s
         then Inr (map lower
                (take 8 s @ ''-'' @ take 4 (drop 8 s) @ ''-'' @ take 4 (drop 12 s) @ ''-'' @
                 take 4 (drop 16 s) @ ''-'' @ drop 20 s))
         else Inl ''invalid UUID format'')
      else Inl (''invalid UUID length: '' @ decimal (length s)))"

definition demo_cfgMgr :: config_Manager where
  "demo_cfgMgr =
     \<lparr> uuid_Parse = google_uuid_Parse,
       client_Tunnel_Get =
         (\<lambda>uid. if uid = ngrok_id then EntFound ngrok_row
                else if uid = cloudflare_id then EntFound cloudflare_row
                else EntNotFound) \<rparr>"

definition demo :: world where
  "demo = NewManager demo_cfgMgr"

text \<open>A definition with a TCP target, for the ngrok adapter alone.\<close>

definition tcp_tunnel :: TunnelConfig where
  "tcp_tunnel =
     \<lparr> cfg_ID = absent_id, cfg_Name = ''db'', cfg_Type = ''ngrok'',
       cfg_Target = ''tcp://localhost:5432'', cfg_Enabled = True, cfg_MCPEnabled = False,
       cfg_CreatedAt = 0, cfg_UpdatedAt = 0, cfg_NgrokAuthtoken = ''token'',
       cfg_NgrokDomain = '''' \<rparr>"

subsection \<open>The forwarding handler of the listener-based ngrok adapter\<close>

text \<open>
  The variant of \<^verbatim>\<open>NgrokService\<close> that opens a listener with \<^verbatim>\<open>ngrok.Listen\<close> serves
  it with an HTTP handler of its own. Requests, responses and the response writer of
  \<^verbatim>\<open>net/http\<close> are records; a header is the list of its keys with their values.
  \<open>client_Do\<close> is the upstream as \<^verbatim>\<open>client.Do\<close> sees it: an error, or the response.
\<close>

type_synonym Header = "(string \<times> string list) list"

record Request =
  req_Method :: string
  req_URL_Scheme :: string
  req_URL_Host :: string
  req_URL_Path :: string
  req_RequestURI :: string
  req_Header :: Header
  req_Body :: string

record Response =
  resp_StatusCode :: nat
  resp_Header :: Header
  resp_Body :: string

record ResponseWriter =
  w_Header :: Header
  w_StatusCode :: "nat option"
  w_Body :: string

definition new_ResponseWriter :: ResponseWriter where
  "new_ResponseWriter = \<lparr> w_Header = [], w_StatusCode = None, w_Body = '''' \<rparr>"

definition Header_Add :: "string \<Rightarrow> string \<Rightarrow> Header \<Rightarrow> Header" where
  "Header_Add key v h =
     (case map_of h key of
        None \<Rightarrow> h @ [(key, [v])]
      | Some vs \<Rightarrow> AList.update key (vs @ [v]) h)"

definition Header_Set :: "string \<Rightarrow> string \<Rightarrow> Header \<Rightarrow> Header" where
  "Header_Set key v h = AList.update key [v] h"

definition Header_Del :: "string \<Rightarrow> Header \<Rightarrow> Header" where
  "Header_Del key h = AList.delete key h"

text \<open>\<^verbatim>\<open>WriteHeader\<close> takes effect once; \<^verbatim>\<open>Write\<close> sends status 200 first if none was sent.\<close>

definition WriteHeader :: "nat \<Rightarrow> ResponseWriter \<Rightarrow> ResponseWriter" where
  "WriteHeader code w = (if w_StatusCode w = None then w\<lparr> w_StatusCode := Some code \<rparr> else w)"

definition Write :: "string \<Rightarrow> ResponseWriter \<Rightarrow> ResponseWriter" where
  "Write bytes w = (let w = WriteHeader 200 w in w\<lparr> w_Body := w_Body w @ bytes \<rparr>)"

text \<open>\<^verbatim>\<open>http.Error\<close>: a plain-text reply with the given status, the text and a newline.\<close>

definition http_Error :: "string \<Rightarrow> nat \<Rightarrow> ResponseWriter \<Rightarrow> ResponseWriter" where
  "http_Error msg code w =
     (let h = Header_Del ''Content-Length'' (w_Header w);
          h = Header_Set ''Content-Type'' ''text/plain; charset=utf-8'' h;
          h = Header_Set ''X-Content-Type-Options'' ''nosniff'' h;
          w = WriteHeader code (w\<lparr> w_Header := h \<rparr>)
      in Write (msg @ [CHR 0x0A]) w)"

definition StatusBadGateway :: nat where
  "StatusBadGateway = 502"

text \<open>
  The handler. The request is cloned and pointed at the target; on success the
  response headers are added one by one, the status code is written, and the body is
  written with \<^verbatim>\<open>w.Write([]byte{})\<close>.
\<close>

definition handler ::
  "string \<Rightarrow> string \<Rightarrow> (Request \<Rightarrow> error + Response) \<Rightarrow> Request \<Rightarrow> ResponseWriter
     \<Rightarrow> ResponseWriter" where
  "handler targetScheme targetHost client_Do r w =
     (let targetReq = r\<lparr> req_URL_Scheme := targetScheme, req_URL_Host := targetHost,
                          req_RequestURI := '''' \<rparr>
      in case client_Do targetReq of
           Inl err \<Rightarrow> http_Error ''Bad Gateway'' StatusBadGateway w
         | Inr resp \<Rightarrow>
             (let w = w\<lparr> w_Header :=
                          fold (\<lambda>(key, values) h. fold (Header_Add key) values h)
                            (resp_Header resp) (w_Header w) \<rparr>;
                  w = WriteHeader (resp_StatusCode resp) w
              in Write [] w))"




subsection \<open>Properties of states\<close>

text \<open>
  No definition is stored for an identifier: it is not a key (the parser rejects it), or
  it is a key and the table has no row for it.
\<close>

definition no_definition :: "config_Manager \<Rightarrow> string \<Rightarrow> bool" where
  "no_definition m ident =
     (case uuid_Parse m ident of
        Inl perr \<Rightarrow> True
      | Inr uid \<Rightarrow> client_Tunnel_Get m uid = EntNotFound)"

text \<open>
  An entry of the registry whose pointer leads to a state object with an adapter that
  is not nil.
\<close>

definition has_service :: "world \<Rightarrow> string \<times> addr \<Rightarrow> bool" where
  "has_service w e =
     (case states w (snd e) of
        None \<Rightarrow> False
      | Some state \<Rightarrow> (case service_of w state of None \<Rightarrow> False | Some svc \<Rightarrow> True))"

text \<open>
  The invariant behind it: every state object on the heap names an adapter that is on
  the heap, and every pointer in the registry leads to a state object.
\<close>

definition heap_ok :: "world \<Rightarrow> bool" where
  "heap_ok w =
     ((\<forall>p state. states w p = Some state \<longrightarrow>
         (\<exists>s svc. ts_service state = Some s \<and> services w s = Some svc)) \<and>
      (\<forall>e \<in> set (tunnels w). states w (snd e) \<noteq> None))"

text \<open>The status, URL and error that \<^verbatim>\<open>GetStatus(id)\<close> reports, when it returns.\<close>

definition reported :: "string \<Rightarrow> world \<Rightarrow> (string \<times> string \<times> string) option" where
  "reported ident w =
     (case Manager_GetStatus ident w of
        Returned (st, err) \<Rightarrow> Some (ts_Status st, ts_PublicURL st, ts_Error st)
      | Panicked msg \<Rightarrow> None)"

section \<open>Lemmas\<close>

subsection \<open>The registry changes only in \<^verbatim>\<open>Manager.Start\<close>\<close>

lemma set_update_subset: "set (AList.update k v al) \<subseteq> insert (k, v) (set al)"
  by (induction al) auto














subsection \<open>Every state object keeps its adapter\<close>

lemma heap_ok_NewManager: "heap_ok (NewManager c)"
  by (simp add: heap_ok_def NewManager_def)

text \<open>Changing adapters in place, or fields of a state other than its adapter, keeps it.\<close>

lemma heap_ok_services:
  assumes "heap_ok w" and "states w' = states w" and "tunnels w' = tunnels w"
    and "\<And>s svc. services w s = Some svc \<Longrightarrow> \<exists>svc'. services w' s = Some svc'"
  shows "heap_ok w'"
  unfolding heap_ok_def
proof (intro conjI allI impI ballI)
  fix p state
  assume "states w' p = Some state"
  with assms(1,2) obtain s svc where "ts_service state = Some s" "services w s = Some svc"
    unfolding heap_ok_def by metis
  with assms(4) show "\<exists>s svc. ts_service state = Some s \<and> services w' s = Some svc"
    by blast
next
  fix e
  assume "e \<in> set (tunnels w')"
  with assms(1,2,3) show "states w' (snd e) \<noteq> None"
    unfolding heap_ok_def by simp
qed

lemma heap_ok_launch:
  assumes "heap_ok w"
  shows "heap_ok (launch ident svc w)"
  unfolding heap_ok_def
proof (intro conjI allI impI ballI)
  fix p state
  assume st: "states (launch ident svc w) p = Some state"
  show "\<exists>s svc'. ts_service state = Some s \<and> services (launch ident svc w) s = Some svc'"
  proof (cases "p = fresh w")
    case True
    with st show ?thesis by (auto simp: launch_def Let_def)
  next
    case False
    with st have "states w p = Some state" by (simp add: launch_def Let_def)
    with assms obtain s svc' where "ts_service state = Some s" "services w s = Some svc'"
      unfolding heap_ok_def by metis
    then show ?thesis by (auto simp: launch_def Let_def)
  qed
next
  fix e
  assume "e \<in> set (tunnels (launch ident svc w))"
  then have "e = (ident, fresh w) \<or> e \<in> set (tunnels w)"
    using set_update_subset [of ident "fresh w" "tunnels w"] by (auto simp: launch_def Let_def)
  with assms show "states (launch ident svc w) (snd e) \<noteq> None"
    unfolding heap_ok_def by (auto simp: launch_def Let_def)
qed

lemma heap_ok_Manager_Start: "heap_ok w \<Longrightarrow> heap_ok (snd (Manager_Start ident w))"
  by (simp add: Manager_Start_def heap_ok_launch split: sum.splits)

lemma heap_ok_update_state:
  assumes "heap_ok w" and "\<And>st. ts_service (f st) = ts_service st"
  shows "heap_ok (update_state p f w)"
  unfolding heap_ok_def
proof (intro conjI allI impI ballI)
  fix q state
  assume st: "states (update_state p f w) q = Some state"
  then obtain st0 where st0: "states w q = Some st0" and ts: "ts_service state = ts_service st0"
    using assms(2) by (auto simp: update_state_def split: if_splits)
  with assms(1) obtain s svc where "ts_service st0 = Some s" "services w s = Some svc"
    unfolding heap_ok_def by metis
  with ts show "\<exists>s svc. ts_service state = Some s \<and> services (update_state p f w) s = Some svc"
    by (simp add: update_state_def)
next
  fix e
  assume "e \<in> set (tunnels (update_state p f w))"
  with assms(1) show "states (update_state p f w) (snd e) \<noteq> None"
    unfolding heap_ok_def by (auto simp: update_state_def)
qed

lemma heap_ok_goroutines: "heap_ok (w\<lparr> goroutines := g \<rparr>) = heap_ok w"
  by (simp add: heap_ok_def)

lemma heap_ok_cancelled: "heap_ok (w\<lparr> cancelled := c \<rparr>) = heap_ok w"
  by (simp add: heap_ok_def)

lemma heap_ok_service_Stop: "heap_ok w \<Longrightarrow> heap_ok (snd (service_Stop u s w))"
  by (rule heap_ok_services [of w])
     (auto simp: service_Stop_def split: option.splits TunnelService.splits prod.splits)

lemma heap_ok_Manager_Stop: "heap_ok w \<Longrightarrow> heap_ok (snd (Manager_Stop ident u w))"
  by (auto simp: Manager_Stop_def Let_def heap_ok_cancelled
      intro!: heap_ok_update_state heap_ok_service_Stop split: option.splits prod.splits)

lemma heap_ok_go_service_Start: "heap_ok w \<Longrightarrow> heap_ok (go_service_Start p a b w)"
  by (rule heap_ok_services [of w])
     (auto simp: go_service_Start_def split: option.splits TunnelService.splits prod.splits)

lemma heap_ok_select_fires: "heap_ok w \<Longrightarrow> heap_ok (select_fires p sel w)"
  by (rule heap_ok_services [of w])
     (auto simp: select_fires_def split: option.splits TunnelService.splits prod.splits)

lemma heap_ok_go_record: "heap_ok w \<Longrightarrow> heap_ok (go_record p w)"
  by (auto simp: go_record_def heap_ok_goroutines intro!: heap_ok_update_state
      split: option.splits phase.splits)

lemma heap_ok_go_ctx_Done: "heap_ok w \<Longrightarrow> heap_ok (go_ctx_Done p w)"
  by (auto simp: go_ctx_Done_def heap_ok_goroutines intro!: heap_ok_update_state
      split: option.splits)

lemma heap_ok_stdout_Write: "heap_ok w \<Longrightarrow> heap_ok (stdout_Write s m w)"
  by (rule heap_ok_services [of w])
     (auto simp: stdout_Write_def split: option.splits TunnelService.splits)

lemma heap_ok_run_context_ends: "heap_ok w \<Longrightarrow> heap_ok (run_context_ends s out w)"
  by (rule heap_ok_services [of w])
     (auto simp: run_context_ends_def split: option.splits TunnelService.splits)

lemma heap_ok_step: "heap_ok w \<Longrightarrow> heap_ok (step e w)"
proof (cases e)
  case (CallDelete ident)
  then show "heap_ok w \<Longrightarrow> heap_ok (step e w)" by (simp add: heap_ok_def)
next
  case Tick
  then show "heap_ok w \<Longrightarrow> heap_ok (step e w)" by (simp add: heap_ok_def)
qed (simp_all add: heap_ok_Manager_Start heap_ok_Manager_Stop heap_ok_go_service_Start
      heap_ok_select_fires heap_ok_go_record heap_ok_go_ctx_Done heap_ok_stdout_Write
      heap_ok_run_context_ends)

lemma heap_ok_run: "heap_ok w \<Longrightarrow> heap_ok (run es w)"
  by (induction es arbitrary: w) (simp_all add: heap_ok_step)

lemma snapshot_Returned:
  assumes "heap_ok w" and "states w p = Some state"
  shows "\<exists>copy. snapshot w state = Returned copy"
proof -
  from assms obtain s svc where "ts_service state = Some s" "services w s = Some svc"
    unfolding heap_ok_def by metis
  then show ?thesis by (simp add: snapshot_def service_of_def)
qed

lemma all_snapshots_Returned: "heap_ok w \<Longrightarrow> \<exists>r. all_snapshots w xs = Returned r"
proof (induction xs)
  case Nil
  show ?case by simp
next
  case (Cons x xs)
  obtain ident p where x: "x = (ident, p)" by (cases x)
  from Cons obtain r where r: "all_snapshots w xs = Returned r" by blast
  show ?case
  proof (cases "states w p")
    case None
    with x r show ?thesis by simp
  next
    case (Some state)
    with Cons.prems obtain copy where "snapshot w state = Returned copy"
      using snapshot_Returned by blast
    with x r Some show ?thesis by simp
  qed
qed

lemma GetStatus_Returned: "heap_ok w \<Longrightarrow> \<exists>r. Manager_GetStatus ident w = Returned r"
  by (auto simp: Manager_GetStatus_def lookup_state_def dest: snapshot_Returned
      split: option.splits outcome.splits)

lemma has_service_all:
  assumes "heap_ok w"
  shows "list_all (has_service w) (tunnels w)"
  unfolding list_all_iff
proof
  fix e
  assume "e \<in> set (tunnels w)"
  with assms obtain state where st: "states w (snd e) = Some state"
    unfolding heap_ok_def by auto
  with assms obtain s svc where "ts_service state = Some s" "services w s = Some svc"
    unfolding heap_ok_def by metis
  with st show "has_service w e" by (simp add: has_service_def service_of_def)
qed

subsection \<open>The select of the ngrok adapter\<close>

text \<open>Every failure of the connect is recorded as status error with the returned text.\<close>

lemma startHTTP_failure:
  assumes "startHTTP sel ns cancels = (Some err, ns', cancels')"
  shows "ns_status ns' = ''error'' \<and> ns_lastError ns' = err \<and> err \<noteq> ''''"
  using assms
  by (auto simp: startHTTP_def Let_def free_account_msg_def
      split: select_outcome.splits forward_result.splits if_splits)

lemma startTCP_failure:
  assumes "startTCP target sel ns cancels = (Some err, ns', cancels')"
  shows "ns_status ns' = ''error'' \<and> ns_lastError ns' = err \<and> err \<noteq> ''''"
  using assms
  by (auto simp: startTCP_def Let_def free_account_msg_def
      split: select_outcome.splits forward_result.splits if_splits)

lemma startTLS_failure:
  assumes "startTLS target sel ns cancels = (Some err, ns', cancels')"
  shows "ns_status ns' = ''error'' \<and> ns_lastError ns' = err \<and> err \<noteq> ''''"
  using assms
  by (auto simp: startTLS_def Let_def free_account_msg_def
      split: select_outcome.splits forward_result.splits if_splits)

lemma NgrokService_Start_select_failure:
  assumes "NgrokService_Start_select sel ns cancels = (Some err, ns', cancels')"
  shows "ns_status ns' = ''error'' \<and> ns_lastError ns' = err \<and> err \<noteq> ''''"
  using assms startHTTP_failure startTCP_failure startTLS_failure
  unfolding NgrokService_Start_select_def Let_def
  by (auto split: if_splits)


subsection \<open>The exits of \<^verbatim>\<open>runTunnel\<close>\<close>

text \<open>
  An error returned by \<^verbatim>\<open>app.RunContext\<close> is stored, and the status written with it is
  overwritten by the deferred reset; only a panic leaves the status error.
\<close>

lemma runTunnel_error_return:
  "\<not> ctx_Err cancels ctx \<Longrightarrow>
   cs_status (runTunnel (RunReturns (Some e)) cancels ctx cs) = ''stopped'' \<and>
   cs_lastError (runTunnel (RunReturns (Some e)) cancels ctx cs) = Some e"
  by (simp add: runTunnel_def runTunnel_body_def defer_reset_def defer_recover_def
      defer_wg_Done_def)

lemma runTunnel_panic:
  "cs_status (runTunnel (RunPanics r) cancels ctx cs) = ''error'' \<and>
   cs_publicURL (runTunnel (RunPanics r) cancels ctx cs) = ''''"
  by (simp add: runTunnel_def runTunnel_body_def defer_reset_def defer_recover_def
      defer_wg_Done_def)

text \<open>\<^verbatim>\<open>CloudflareService.Stop\<close> on an adapter whose goroutine has ended changes no status.\<close>

lemma CloudflareService_Stop_keeps_status:
  "cs_status (fst (snd (CloudflareService_Stop unwind None cs cancels))) = cs_status cs"
  by (simp add: CloudflareService_Stop_def Let_def)

subsection \<open>\<^verbatim>\<open>Manager.Start\<close> and \<^verbatim>\<open>Manager.Stop\<close>\<close>

lemma Manager_Start_running:
  "already_running w ident \<Longrightarrow> Manager_Start ident w = (Some ''tunnel already running'', w)"
  by (simp add: Manager_Start_def)

text \<open>A failed \<^verbatim>\<open>Start\<close> leaves the whole state as it was.\<close>

lemma Manager_Start_error_unchanged:
  "fst (Manager_Start ident w) = Some err \<Longrightarrow> snd (Manager_Start ident w) = w"
  by (auto simp: Manager_Start_def split: if_splits sum.splits)

text \<open>A cached status other than running does not stop a second \<^verbatim>\<open>Start\<close>.\<close>

lemma Manager_Start_not_running:
  assumes "lookup_state w ident = Some (p, state)" and "ts_Status state \<noteq> ''running''"
    and "GetTunnel (cfgMgr w) ident = Inr tunnelCfg" and "cfg_Type tunnelCfg = TunnelTypeNgrok"
  shows "Manager_Start ident w = (None, launch ident (Ngrok (NewNgrokService tunnelCfg)) w)"
  using assms
  by (simp add: Manager_Start_def already_running_def TunnelTypeNgrok_def TunnelTypeCloudflare_def)

text \<open>\<^verbatim>\<open>Stop\<close> succeeds for every identifier in the registry.\<close>

lemma Manager_Stop_succeeds:
  "lookup_state w ident = Some (p, state) \<Longrightarrow> fst (Manager_Stop ident unwind w) = None"
  by (simp add: Manager_Stop_def Let_def)

text \<open>\<^verbatim>\<open>Stop\<close> returns early, changing nothing, when the adapter reports stopped.\<close>

lemma Manager_Stop_early_return:
  assumes "lookup_state w ident = Some (p, state)" and "service_of w state = Some svc"
    and "GetStatus svc = ''stopped''"
  shows "Manager_Stop ident unwind w = (None, w)"
  using assms by (simp add: Manager_Stop_def)

subsection \<open>The forwarding handler\<close>

text \<open>
  What the handler does for every request and upstream: a failure of the upstream is
  answered with 502 and the text; a response has its status relayed and its body
  dropped.
\<close>






lemma handler_upstream_failure:
  assumes "client_Do (r\<lparr> req_URL_Scheme := targetScheme, req_URL_Host := targetHost,
                         req_RequestURI := '''' \<rparr>) = Inl err"
  shows "w_StatusCode (handler targetScheme targetHost client_Do r new_ResponseWriter) = Some 502 \<and>
         w_Body (handler targetScheme targetHost client_Do r new_ResponseWriter) =
           ''Bad Gateway'' @ [CHR 0x0A]"
  using assms
  by (simp add: handler_def http_Error_def Write_def WriteHeader_def new_ResponseWriter_def
      StatusBadGateway_def Let_def)

lemma handler_upstream_response:
  assumes "client_Do (r\<lparr> req_URL_Scheme := targetScheme, req_URL_Host := targetHost,
                         req_RequestURI := '''' \<rparr>) = Inr resp"
  shows "w_StatusCode (handler targetScheme targetHost client_Do r new_ResponseWriter) =
           Some (resp_StatusCode resp) \<and>
         w_Body (handler targetScheme targetHost client_Do r new_ResponseWriter) = ''''"
  using assms
  by (simp add: handler_def Write_def WriteHeader_def new_ResponseWriter_def Let_def)

subsection \<open>Evaluation\<close>

text \<open>The definitions a run on the concrete installation unfolds.\<close>

lemmas config_defs = GetTunnel_def DeleteTunnel_def stringPtrToString_def
  TunnelTypeCloudflare_def TunnelTypeNgrok_def

lemmas ngrok_defs = NewNgrokService_def NgrokService_Start_def NgrokService_Start_enter_def
  NgrokService_Start_select_def NgrokService_Stop_def startHTTP_def startTCP_def startTLS_def
  HasPrefix_def TrimPrefix_def call_cancel_def free_account_msg_def

lemmas cloudflare_defs = NewCloudflareService_def CloudflareService_Start_def
  CloudflareService_Stop_def CloudflareService_GetError_def runTunnel_def runTunnel_body_def
  defer_reset_def defer_recover_def defer_wg_Done_def urlCapture_Write_def

lemmas manager_defs = NewManager_def lookup_state_def service_of_def update_state_def
  launch_def already_running_def Manager_Start_def service_Stop_def Manager_Stop_def
  snapshot_def Manager_GetStatus_def Manager_GetAllStatuses_def reported_def

lemmas step_defs = go_service_Start_def select_fires_def go_record_def go_ctx_Done_def
  stdout_Write_def run_context_ends_def

text \<open>The parser on the four identifiers of the installation.\<close>

lemma demo_parse:
  "google_uuid_Parse ngrok_id = Inr ngrok_id"
  "google_uuid_Parse cloudflare_id = Inr cloudflare_id"
  "google_uuid_Parse absent_id = Inr absent_id"
  "google_uuid_Parse unknown_id = Inl ''invalid UUID length: 10''"
  by code_simp+

lemmas demo_parse_text =
  demo_parse [unfolded ngrok_id_def cloudflare_id_def absent_id_def unknown_id_def]

lemmas demo_defs = demo_def demo_cfgMgr_def demo_parse demo_parse_text ngrok_id_def
  cloudflare_id_def absent_id_def unknown_id_def ngrok_row_def cloudflare_row_def
  tcp_tunnel_def

lemmas eval_defs = config_defs ngrok_defs cloudflare_defs manager_defs step_defs demo_defs
  Let_def

text \<open>
  A \<^verbatim>\<open>Stop\<close> that meets the Cloudflare adapter while it is starting does cancel: the
  adapter has set its status to starting in \<^verbatim>\<open>Start\<close>, so \<^verbatim>\<open>Manager.Stop\<close> goes on,
  both contexts are cancelled, \<^verbatim>\<open>runTunnel\<close> unwinds and the status is stopped.
\<close>

lemma cloudflare_stop_while_starting:
  "reported cloudflare_id
     (run [CallStart cloudflare_id, GoServiceStart 0 None None] demo) =
     Some (''starting'', '''', '''') \<and>
   reported cloudflare_id
     (run [CallStart cloudflare_id, GoServiceStart 0 None None,
           CallStop cloudflare_id (RunReturns None)] demo) = Some (''stopped'', '''', '''') \<and>
   cancelled (run [CallStart cloudflare_id, GoServiceStart 0 None None,
           CallStop cloudflare_id (RunReturns None)] demo) = {0, 1} \<and>
   runs (run [CallStart cloudflare_id, GoServiceStart 0 None None,
           CallStop cloudflare_id (RunReturns None)] demo) 0 = None"
  by (simp add: eval_defs insert_commute)

text \<open>
  After two calls of \<^verbatim>\<open>Start\<close> for one identifier both adapters connect. \<^verbatim>\<open>Stop\<close>
  reaches the second through the registry; the first keeps running, with its forwarder
  open and its context alive.
\<close>

lemma replaced_adapter_keeps_running:
  "map_option GetStatus
     (services (run [CallStart ngrok_id, CallStart ngrok_id, GoServiceStart 0 None None,
        GoServiceStart 1 None None, SelectFires 0 (Result (ForwardOK ''https://a.ngrok.app'')),
        SelectFires 1 (Result (ForwardOK ''https://b.ngrok.app'')), GoRecord 0, GoRecord 1,
        CallStop ngrok_id (RunReturns None)] demo) 0) = Some ''running'' \<and>
   map_option GetStatus
     (services (run [CallStart ngrok_id, CallStart ngrok_id, GoServiceStart 0 None None,
        GoServiceStart 1 None None, SelectFires 0 (Result (ForwardOK ''https://a.ngrok.app'')),
        SelectFires 1 (Result (ForwardOK ''https://b.ngrok.app'')), GoRecord 0, GoRecord 1,
        CallStop ngrok_id (RunReturns None)] demo) 1) = Some ''stopped'' \<and>
   reported ngrok_id
     (run [CallStart ngrok_id, CallStart ngrok_id, GoServiceStart 0 None None,
        GoServiceStart 1 None None, SelectFires 0 (Result (ForwardOK ''https://a.ngrok.app'')),
        SelectFires 1 (Result (ForwardOK ''https://b.ngrok.app'')), GoRecord 0, GoRecord 1,
        CallStop ngrok_id (RunReturns None)] demo) = Some (''stopped'', '''', '''') \<and>
   \<not> ctx_Err
     (cancelled (run [CallStart ngrok_id, CallStart ngrok_id, GoServiceStart 0 None None,
        GoServiceStart 1 None None, SelectFires 0 (Result (ForwardOK ''https://a.ngrok.app'')),
        SelectFires 1 (Result (ForwardOK ''https://b.ngrok.app'')), GoRecord 0, GoRecord 1,
        CallStop ngrok_id (RunReturns None)] demo))
     (WithCancel 2 (WithCancel 0 Background))"
  by (simp add: eval_defs)

section \<open>The claims\<close>

text \<open>
  C1. Claimed: \<^verbatim>\<open>Manager.Start(id)\<close> fails with the already-running error while the entry
  for the identifier is starting or running, and does not replace the adapter, so that
  two quick calls leave one adapter. The code rejects the call only when the cached
  status is running. Evaluated here: two calls of \<^verbatim>\<open>Start\<close> for the ngrok tunnel, the
  second while the first goroutine has not yet run. Both return nil; after the first the
  entry points to state 0 with status starting; after the second it points to state 1
  with adapter 1, while adapter 0 and its goroutine are still there, its context not
  cancelled, and no entry of the registry leads to them.
\<close>

theorem C1_second_start_replaces_adapter:
  "fst (Manager_Start ngrok_id demo) = None \<and>
   tunnels (run [CallStart ngrok_id] demo) = [(ngrok_id, 0)] \<and>
   map_option ts_Status (states (run [CallStart ngrok_id] demo) 0) = Some ''starting'' \<and>
   fst (Manager_Start ngrok_id (run [CallStart ngrok_id] demo)) = None \<and>
   tunnels (run [CallStart ngrok_id, CallStart ngrok_id] demo) = [(ngrok_id, 1)] \<and>
   map_option ts_service (states (run [CallStart ngrok_id, CallStart ngrok_id] demo) 1) =
     Some (Some 1) \<and>
   map_option GetStatus (services (run [CallStart ngrok_id, CallStart ngrok_id] demo) 0) =
     Some ''stopped'' \<and>
   map_option GetStatus (services (run [CallStart ngrok_id, CallStart ngrok_id] demo) 1) =
     Some ''stopped'' \<and>
   goroutines (run [CallStart ngrok_id, CallStart ngrok_id] demo) 0 =
     Some \<lparr> g_service = 0, g_ctx = WithCancel 0 Background, g_phase = Launched \<rparr> \<and>
   goroutines (run [CallStart ngrok_id, CallStart ngrok_id] demo) 1 =
     Some \<lparr> g_service = 1, g_ctx = WithCancel 1 Background, g_phase = Launched \<rparr> \<and>
   cancelled (run [CallStart ngrok_id, CallStart ngrok_id] demo) = {}"
  by (simp add: eval_defs)

text \<open>
  C2, as amended. When the timer of the select fires before a result of the connect has
  arrived, \<^verbatim>\<open>NgrokService.Start\<close> (whichever of the three start functions the target
  selects) leaves the adapter with status error and a non-empty message, returns that
  message as its error, and has cancelled the context it created for the connect. The
  length of the timer, 30 seconds, is the argument of \<^verbatim>\<open>time.After\<close> in the code; the
  embedding has the firing of the timer, not its duration.
\<close>

theorem C2_ngrok_timeout_sets_error_and_cancels:
  "case NgrokService_Start ctx k None TimeAfter ns cancels of
     (r, ns', cancels') \<Rightarrow>
       ns_status ns' = ''error'' \<and> ns_lastError ns' \<noteq> '''' \<and> r = Some (ns_lastError ns') \<and>
       ns_ctx ns' = Some (WithCancel k ctx) \<and> ns_cancel ns' = Some k \<and>
       ctx_Err cancels' (WithCancel k ctx)"
  by (simp add: NgrokService_Start_def NgrokService_Start_enter_def NgrokService_Start_select_def
      startHTTP_def startTCP_def startTLS_def call_cancel_def Let_def)

text \<open>
  An instance: the ngrok tunnel of the installation, started through the manager, with
  the timer firing in the goroutine's select. The status reported is error, the message
  is the timeout text, and the adapter's context (number 1, under the manager's
  context 0) is done. The same for an adapter with a TCP target.
\<close>

theorem C2_ngrok_timeout_witness:
  "map_option (\<lambda>(status, url, err). (status, url, take 24 err))
     (reported ngrok_id
        (run [CallStart ngrok_id, GoServiceStart 0 None None, SelectFires 0 TimeAfter] demo)) =
     Some (''error'', '''', ''Ngrok connection timeout'') \<and>
   ctx_Err (cancelled (run [CallStart ngrok_id, GoServiceStart 0 None None,
              SelectFires 0 TimeAfter] demo)) (WithCancel 1 (WithCancel 0 Background)) \<and>
   (case NgrokService_Start Background 0 None TimeAfter (NewNgrokService tcp_tunnel) {} of
      (r, ns', cancels') \<Rightarrow>
        ns_status ns' = ''error'' \<and> take 9 (ns_lastError ns') = ''Ngrok TCP'' \<and>
        r = Some (ns_lastError ns') \<and> cancels' = {0})"
  using C2_ngrok_timeout_sets_error_and_cancels
    [where ctx = Background and k = 0 and ns = "NewNgrokService tcp_tunnel" and cancels = "{}"]
  by (simp add: eval_defs)

text \<open>
  The claim as stated speaks of every adapter variant. The Cloudflare adapter has no
  timer: its \<^verbatim>\<open>Start\<close> returns at once with status starting, and nothing but the end of
  \<^verbatim>\<open>runTunnel\<close>, a URL in its output or a call of \<^verbatim>\<open>Stop\<close> changes that. Here the
  Cloudflare tunnel is started, its connect never completes, time passes and a timer
  event is offered: the status reported stays starting, the error empty, no context
  has been cancelled, and \<^verbatim>\<open>runTunnel\<close> is still alive.
\<close>

theorem C2_cloudflare_has_no_timeout:
  "reported cloudflare_id
     (run [CallStart cloudflare_id, GoServiceStart 0 None None, GoRecord 0, Tick,
           SelectFires 0 TimeAfter, Tick] demo) = Some (''starting'', '''', '''') \<and>
   cancelled (run [CallStart cloudflare_id, GoServiceStart 0 None None, GoRecord 0, Tick,
           SelectFires 0 TimeAfter, Tick] demo) = {} \<and>
   runs (run [CallStart cloudflare_id, GoServiceStart 0 None None, GoRecord 0, Tick,
           SelectFires 0 TimeAfter, Tick] demo) 0 = Some (WithCancel 1 (WithCancel 0 Background))"
  by (simp add: eval_defs)

text \<open>
  C3. Claimed: a \<^verbatim>\<open>Stop\<close> that arrives while the tunnel is starting cancels the context
  in flight, and the status settles to stopped. The ngrok adapter keeps the status
  stopped of its constructor until its select has received, so \<^verbatim>\<open>Manager.Stop\<close> takes
  its early return. Evaluated here: the ngrok tunnel is started and its goroutine is
  blocked in the select; \<^verbatim>\<open>Stop\<close> returns nil and changes nothing (no context is
  cancelled, the goroutine is still in the select); the connect then succeeds, and the
  tunnel is reported running with its URL.
\<close>

theorem C3_stop_during_ngrok_connect_is_ignored:
  "map_option g_phase
     (goroutines (run [CallStart ngrok_id, GoServiceStart 0 None None] demo) 0) = Some InSelect \<and>
   map_option ts_Status
     (states (run [CallStart ngrok_id, GoServiceStart 0 None None] demo) 0) = Some ''starting'' \<and>
   Manager_Stop ngrok_id unwind (run [CallStart ngrok_id, GoServiceStart 0 None None] demo) =
     (None, run [CallStart ngrok_id, GoServiceStart 0 None None] demo) \<and>
   cancelled (run [CallStart ngrok_id, GoServiceStart 0 None None, CallStop ngrok_id unwind] demo)
     = {} \<and>
   map_option g_phase
     (goroutines (run [CallStart ngrok_id, GoServiceStart 0 None None, CallStop ngrok_id unwind]
        demo) 0) = Some InSelect \<and>
   reported ngrok_id
     (run [CallStart ngrok_id, GoServiceStart 0 None None, CallStop ngrok_id unwind,
           SelectFires 0 (Result (ForwardOK ''https://example.ngrok.app'')), GoRecord 0] demo) =
     Some (''running'', ''https://example.ngrok.app'', '''')"
  by (simp add: eval_defs)

text \<open>
  C4. Claimed: after a connect failure of the adapter, \<^verbatim>\<open>GetStatus(id)\<close> reports status
  error with a non-empty message. \<^verbatim>\<open>runTunnel\<close> of the Cloudflare adapter writes status
  error when \<^verbatim>\<open>app.RunContext\<close> returns an error, and its deferred reset then writes
  status stopped over it. Evaluated here: the Cloudflare tunnel is started and
  \<^verbatim>\<open>app.RunContext\<close> returns a network error, nothing having been cancelled; the status
  reported is stopped, with the message of the error.
\<close>

theorem C4_cloudflare_connect_error_reported_stopped:
  "reported cloudflare_id
     (run [CallStart cloudflare_id, GoServiceStart 0 None None, GoRecord 0,
           RunContextEnds 0 (RunReturns (Some ''dial tcp: connection refused''))] demo) =
     Some (''stopped'', '''', ''dial tcp: connection refused'') \<and>
   cancelled (run [CallStart cloudflare_id, GoServiceStart 0 None None, GoRecord 0,
           RunContextEnds 0 (RunReturns (Some ''dial tcp: connection refused''))] demo) = {}"
  by (simp add: eval_defs)

text \<open>
  C5. Claimed: two calls of \<^verbatim>\<open>Stop(id)\<close> in a row both succeed, and after the first
  \<^verbatim>\<open>GetStatus(id)\<close> reports stopped with an empty URL. Both calls do succeed. The status
  is the adapter's, and \<^verbatim>\<open>CloudflareService.Stop\<close> writes none: it relies on the reset
  that \<^verbatim>\<open>runTunnel\<close> defers, which has already run when the goroutine ended in a panic
  (the recovery then wrote status error). Evaluated here: the Cloudflare tunnel is
  started, cloudflared exits with code 1, and \<^verbatim>\<open>Stop\<close> is called twice; each call
  returns nil, and the status reported after each is error.
\<close>

theorem C5_stop_leaves_cloudflare_error:
  "reported cloudflare_id
     (run [CallStart cloudflare_id, GoServiceStart 0 None None, GoRecord 0,
           RunContextEnds 0 (RunPanics ''CLI exit with code 1'')] demo) =
     Some (''error'', '''', ''tunnel panic: CLI exit with code 1'') \<and>
   fst (Manager_Stop cloudflare_id unwind
     (run [CallStart cloudflare_id, GoServiceStart 0 None None, GoRecord 0,
           RunContextEnds 0 (RunPanics ''CLI exit with code 1'')] demo)) = None \<and>
   reported cloudflare_id
     (run [CallStart cloudflare_id, GoServiceStart 0 None None, GoRecord 0,
           RunContextEnds 0 (RunPanics ''CLI exit with code 1''),
           CallStop cloudflare_id unwind] demo) =
     Some (''error'', '''', ''tunnel panic: CLI exit with code 1'') \<and>
   fst (Manager_Stop cloudflare_id unwind'
     (run [CallStart cloudflare_id, GoServiceStart 0 None None, GoRecord 0,
           RunContextEnds 0 (RunPanics ''CLI exit with code 1''),
           CallStop cloudflare_id unwind] demo)) = None \<and>
   reported cloudflare_id
     (run [CallStart cloudflare_id, GoServiceStart 0 None None, GoRecord 0,
           RunContextEnds 0 (RunPanics ''CLI exit with code 1''),
           CallStop cloudflare_id unwind, CallStop cloudflare_id unwind'] demo) =
     Some (''error'', '''', ''tunnel panic: CLI exit with code 1'')"
  by (simp add: eval_defs)



text \<open>
  C7, as amended. When no definition is stored for an identifier (it is not a key, or it
  is a key without a row), \<^verbatim>\<open>Manager.Start\<close> fails and the whole state, the registry
  included, is as before: no entry is created. The error is already running when the
  registry holds an entry for the identifier whose cached status is running (the guard
  comes before the lookup); otherwise it is invalid tunnel id, with the text of the
  parser, when the identifier is not a key (the parser comes before the table);
  otherwise it is tunnel not found, with the identifier.
\<close>

theorem C7_start_without_definition:
  "no_definition (cfgMgr w) ident \<Longrightarrow>
   Manager_Start ident w =
     (Some (if already_running w ident then ''tunnel already running''
            else case uuid_Parse (cfgMgr w) ident of
                   Inl perr \<Rightarrow> ''invalid tunnel id: '' @ perr
                 | Inr uid \<Rightarrow> ''tunnel not found: '' @ ident),
      w)"
  by (auto simp: no_definition_def Manager_Start_def GetTunnel_def split: sum.splits)

text \<open>
  Two instances in the fresh installation: a well-formed key with no row, and an
  identifier that is no key.
\<close>

theorem C7_start_without_definition_witness:
  "no_definition (cfgMgr demo) absent_id \<and> \<not> already_running demo absent_id \<and>
   Manager_Start absent_id demo = (Some (''tunnel not found: '' @ absent_id), demo) \<and>
   no_definition (cfgMgr demo) unknown_id \<and>
   Manager_Start unknown_id demo = (Some ''invalid tunnel id: invalid UUID length: 10'', demo)"
proof -
  have a: "no_definition (cfgMgr demo) absent_id" and b: "no_definition (cfgMgr demo) unknown_id"
    by (simp_all add: no_definition_def eval_defs)
  have c: "\<not> already_running demo absent_id" and d: "\<not> already_running demo unknown_id"
    by (simp_all add: already_running_def lookup_state_def demo_def NewManager_def)
  have e: "uuid_Parse (cfgMgr demo) absent_id = Inr absent_id"
    and f: "uuid_Parse (cfgMgr demo) unknown_id = Inl ''invalid UUID length: 10''"
    by (simp_all add: demo_def NewManager_def demo_cfgMgr_def demo_parse)
  show ?thesis
    using a b c C7_start_without_definition [OF a] C7_start_without_definition [OF b]
    by (simp add: c d e f)
qed

text \<open>
  The claim as stated promises the not-found error whenever no definition is stored. It
  fails twice. The identifier \<^verbatim>\<open>unknown-id\<close> has no definition, and \<^verbatim>\<open>Start\<close> fails
  with invalid tunnel id, the error of the parser. And when the ngrok tunnel has been
  started and recorded running and its definition is then deleted (the API deletes
  without stopping), no definition is stored for it, and \<^verbatim>\<open>Start\<close> fails with already
  running.
\<close>

theorem C7_not_found_is_not_the_only_error:
  "no_definition (cfgMgr demo) unknown_id \<and>
   fst (Manager_Start unknown_id demo) = Some ''invalid tunnel id: invalid UUID length: 10'' \<and>
   ''invalid tunnel id: invalid UUID length: 10'' \<noteq> ''tunnel not found: '' @ unknown_id \<and>
   no_definition
     (cfgMgr (run [CallStart ngrok_id, GoServiceStart 0 None None,
                   SelectFires 0 (Result (ForwardOK ''https://example.ngrok.app'')), GoRecord 0,
                   CallDelete ngrok_id] demo)) ngrok_id \<and>
   fst (Manager_Start ngrok_id
     (run [CallStart ngrok_id, GoServiceStart 0 None None,
           SelectFires 0 (Result (ForwardOK ''https://example.ngrok.app'')), GoRecord 0,
           CallDelete ngrok_id] demo)) = Some ''tunnel already running'' \<and>
   ''tunnel already running'' \<noteq> ''tunnel not found: '' @ ngrok_id"
  by (simp add: no_definition_def eval_defs)






text \<open>
  C10. In every state the manager can reach from its creation, each entry of the
  registry leads to a state object whose adapter is not nil, \<^verbatim>\<open>GetStatus\<close> returns for
  every identifier, and \<^verbatim>\<open>GetAllStatuses\<close> returns: neither panics on a nil adapter.
\<close>

theorem C10_registry_entries_have_adapter:
  "list_all (has_service (run es (NewManager c))) (tunnels (run es (NewManager c))) \<and>
   (\<exists>r. Manager_GetStatus ident (run es (NewManager c)) = Returned r) \<and>
   (\<exists>r. Manager_GetAllStatuses (run es (NewManager c)) = Returned r)"
proof -
  have ok: "heap_ok (run es (NewManager c))"
    by (rule heap_ok_run [OF heap_ok_NewManager])
  show ?thesis
    using has_service_all [OF ok] GetStatus_Returned [OF ok] all_snapshots_Returned [OF ok]
    by (simp add: Manager_GetAllStatuses_def)
qed

text \<open>An instance: both tunnels started, one of them twice.\<close>

theorem C10_registry_witness:
  "list_all (has_service (run [CallStart cloudflare_id, CallStart ngrok_id, CallStart ngrok_id] demo))
     [(cloudflare_id, 0), (ngrok_id, 2)] \<and>
   tunnels (run [CallStart cloudflare_id, CallStart ngrok_id, CallStart ngrok_id] demo) =
     [(cloudflare_id, 0), (ngrok_id, 2)] \<and>
   (\<exists>r. Manager_GetAllStatuses
          (run [CallStart cloudflare_id, CallStart ngrok_id, CallStart ngrok_id] demo) = Returned r)"
proof -
  have t: "tunnels (run [CallStart cloudflare_id, CallStart ngrok_id, CallStart ngrok_id] demo) =
     [(cloudflare_id, 0), (ngrok_id, 2)]"
    by (simp add: eval_defs)
  have inst:
    "list_all (has_service (run [CallStart cloudflare_id, CallStart ngrok_id, CallStart ngrok_id] demo))
       (tunnels (run [CallStart cloudflare_id, CallStart ngrok_id, CallStart ngrok_id] demo)) \<and>
     (\<exists>r. Manager_GetStatus ngrok_id
            (run [CallStart cloudflare_id, CallStart ngrok_id, CallStart ngrok_id] demo) = Returned r) \<and>
     (\<exists>r. Manager_GetAllStatuses
            (run [CallStart cloudflare_id, CallStart ngrok_id, CallStart ngrok_id] demo) = Returned r)"
    unfolding demo_def by (rule C10_registry_entries_have_adapter)
  from inst show ?thesis unfolding t by blast
qed

end
